theory Spec2Isabelle
  imports Complex_Main "HOL-Library.Sublist"
begin

section \<open>Skin disease diagnosis: the browser client\<close>

text \<open>
  The development follows the TypeScript sources of the front end:
  \<^verbatim>\<open>components/ImageUpload.tsx\<close>, \<^verbatim>\<open>components/PatientMetadata.tsx\<close>,
  \<^verbatim>\<open>app/page.tsx\<close>, \<^verbatim>\<open>lib/types.ts\<close> and \<^verbatim>\<open>lib/api.ts\<close>.
  A rejected promise or a thrown \<^verbatim>\<open>Error\<close> is the left summand of a sum type;
  React state is a record that a handler returns updated; calls of \<^verbatim>\<open>alert\<close> and of
  callbacks are kept in the order the handler makes them.
\<close>

subsection \<open>Files and images\<close>

text \<open>\<^verbatim>\<open>new Error(message)\<close>: the only thing the handlers read of it is the message.\<close>

datatype js_error = Error string

fun err_message :: "js_error \<Rightarrow> string" where
  "err_message (Error m) = m"

text \<open>What \<^verbatim>\<open>img.onload\<close> sees of a decoded image.\<close>

record image =
  width :: nat
  height :: nat

text \<open>
  A browser \<^verbatim>\<open>File\<close>: its MIME type, its size in bytes, the result of loading it into an
  \<^verbatim>\<open>Image\<close> element (\<open>None\<close> when \<^verbatim>\<open>img.onerror\<close> fires) and the data URL a
  \<^verbatim>\<open>FileReader\<close> produces for it.
\<close>

record File =
  file_type :: string
  file_size :: nat
  decoded :: "image option"
  data_url :: string

subsection \<open>ImageUpload.tsx\<close>

text \<open>
  \<^verbatim>\<open>validateImageQuality\<close>: the promise resolves with \<^verbatim>\<open>true\<close> or rejects with an
  \<^verbatim>\<open>Error\<close>. The two resolution tests are in the order of the source.
\<close>

definition validateImageQuality :: "File \<Rightarrow> js_error + bool" where
  "validateImageQuality f =
     (case decoded f of
        None \<Rightarrow> Inl (Error ''Invalid or corrupted image file.'')
      | Some img \<Rightarrow>
          if width img < 100 \<or> height img < 100
          then Inl (Error ''Image resolution too low. Minimum required: 100x100 pixels.'')
          else if width img < 50 \<or> height img < 50
          then Inl (Error ''Image appears to be corrupted or invalid.'')
          else Inr True)"

text \<open>
  The state of the upload component, with the \<^verbatim>\<open>alert\<close> calls it has made. The parent's
  state is \<open>'p\<close>; \<^verbatim>\<open>onImageSelect\<close> is the parent's callback on it.
\<close>

record upload_state =
  uploadProgress :: nat
  preview :: "string option"
  alerts :: "string list"

text \<open>
  \<^verbatim>\<open>handleFile\<close>. The result is the state once the handler and the \<^verbatim>\<open>FileReader\<close>'s
  \<^verbatim>\<open>onload\<close> it starts have run.
\<close>

definition handleFile ::
    "(File \<Rightarrow> 'p \<Rightarrow> 'p) \<Rightarrow> File \<Rightarrow> upload_state \<times> 'p \<Rightarrow> upload_state \<times> 'p" where
  "handleFile onImageSelect f sp =
     (let s = (fst sp)\<lparr>uploadProgress := 0\<rparr>; p = snd sp in
      if \<not> prefix ''image/'' (file_type f)
      then (s\<lparr>alerts := alerts s @ [''Please upload an image file (JPEG, PNG)'']\<rparr>, p)
      else if file_size f > 10 * 1024 * 1024
      then (s\<lparr>alerts := alerts s @ [''File size must be less than 10MB'']\<rparr>, p)
      else
        (case validateImageQuality (f) of
           Inl e \<Rightarrow> (s\<lparr>uploadProgress := 0, alerts := alerts s @ [err_message e]\<rparr>, p)
         | Inr _ \<Rightarrow> (s\<lparr>uploadProgress := 0, preview := Some (data_url f)\<rparr>, onImageSelect f p)))"

subsection \<open>lib/types.ts and PatientMetadata.tsx\<close>

definition LESION_LOCATIONS :: "string list" where
  "LESION_LOCATIONS =
     [''Face'', ''Chest'', ''Back'', ''Arms'', ''Legs'', ''Hands'', ''Feet'', ''Scalp'', ''Neck'',
      ''Other'']"

text \<open>
  The values of the \<^verbatim>\<open>select\<close> element's options: the placeholder option with the empty
  value, then one option for each location.
\<close>

definition location_options :: "string list" where
  "location_options = [] # LESION_LOCATIONS"

text \<open>
  JavaScript's \<^verbatim>\<open>parseInt(string)\<close> with no radix, after ECMA-262: leading white space is
  dropped, then an optional sign, then an optional \<^verbatim>\<open>0x\<close> or \<^verbatim>\<open>0X\<close> (radix 16 instead of 10),
  and the longest run of digits of the radix is read; whatever follows is ignored. With no
  digit the result is \<^verbatim>\<open>NaN\<close>, here \<open>None\<close>. Strings are byte strings here, so the white
  space characters are the ones below 256.
\<close>

definition isWhiteSpace :: "char \<Rightarrow> bool" where
  "isWhiteSpace c = ((of_char c :: nat) \<in> {9, 10, 11, 12, 13, 32, 160})"

definition digitValue :: "char \<Rightarrow> nat option" where
  "digitValue c =
     (let n = (of_char c :: nat) in
      if 48 \<le> n \<and> n \<le> 57 then Some (n - 48)
      else if 97 \<le> n \<and> n \<le> 122 then Some (n - 87)
      else if 65 \<le> n \<and> n \<le> 90 then Some (n - 55)
      else None)"

definition isDigit :: "nat \<Rightarrow> char \<Rightarrow> bool" where
  "isDigit R c = (case digitValue c of Some d \<Rightarrow> d < R | None \<Rightarrow> False)"

fun stripSign :: "string \<Rightarrow> int \<times> string" where
  "stripSign [] = (1, [])"
| "stripSign (c # cs) =
     (if c = CHR ''-'' then (- 1, cs) else if c = CHR ''+'' then (1, cs) else (1, c # cs))"

fun stripPrefix :: "string \<Rightarrow> nat \<times> string" where
  "stripPrefix (a # b # cs) =
     (if a = CHR ''0'' \<and> (b = CHR ''x'' \<or> b = CHR ''X'') then (16, cs) else (10, a # b # cs))"
| "stripPrefix cs = (10, cs)"

definition mathInt :: "nat \<Rightarrow> string \<Rightarrow> nat" where
  "mathInt R Z = foldl (\<lambda>a c. case digitValue c of Some d \<Rightarrow> a * R + d | None \<Rightarrow> a) 0 Z"

definition parseInt :: "string \<Rightarrow> int option" where
  "parseInt string =
     (let (sign, S) = stripSign (dropWhile isWhiteSpace string);
          (R, S') = stripPrefix S;
          Z = takeWhile (isDigit R) S'
      in if Z = [] then None else Some (sign * int (mathInt R Z)))"

text \<open>
  \<^verbatim>\<open>handleAgeChange\<close>, on the stored age: \<^verbatim>\<open>onAgeChange\<close> is the page's \<^verbatim>\<open>setAge\<close>.
  Where the handler does not call it the stored age is returned as it was.
\<close>

definition handleAgeChange :: "string \<Rightarrow> int option \<Rightarrow> int option" where
  "handleAgeChange v age =
     (if v = [] then None
      else case parseInt v of
             None \<Rightarrow> age
           | Some numValue \<Rightarrow> if numValue \<ge> 0 \<and> numValue \<le> 150 then Some numValue else age)"

subsection \<open>lib/api.ts\<close>

definition MAX_RETRIES :: nat where
  "MAX_RETRIES = 2"

text \<open>\<^verbatim>\<open>age.toString()\<close> for an integer.\<close>

fun digits10 :: "nat \<Rightarrow> string" where
  "digits10 n =
     (if n < 10 then [char_of (48 + n)] else digits10 (n div 10) @ [char_of (48 + n mod 10)])"

declare digits10.simps [simp del]

definition toString :: "int \<Rightarrow> string" where
  "toString i = (if i < 0 then CHR ''-'' # digits10 (nat (- i)) else digits10 (nat i))"

text \<open>\<^verbatim>\<open>String.prototype.includes\<close>: the second string occurs in the first.\<close>

fun str_includes :: "string \<Rightarrow> string \<Rightarrow> bool" where
  "str_includes [] sub = (sub = [])"
| "str_includes (c # cs) sub = (prefix sub (c # cs) \<or> str_includes cs sub)"

text \<open>
  What comes back from the network. A body is either not JSON (with the message of the
  \<^verbatim>\<open>SyntaxError\<close> that \<^verbatim>\<open>response.json()\<close> rejects with), or the JSON value \<^verbatim>\<open>null\<close>, or
  another JSON document, of which the client reads the \<^verbatim>\<open>detail\<close> field (absent: \<open>None\<close>)
  or which it returns whole, typed as a prediction \<open>'r\<close>. \<^verbatim>\<open>fetch\<close> either resolves with a
  response, or rejects: with an \<^verbatim>\<open>AbortError\<close> once the timer of \<^verbatim>\<open>fetchWithTimeout\<close> has
  aborted it, or with another error.
\<close>

datatype 'r body = NotJson string | JsonNull | Json "string option" 'r

record 'r response =
  status :: nat
  body :: "'r body"

definition ok :: "'r response \<Rightarrow> bool" where
  "ok r = (200 \<le> status r \<and> status r \<le> 299)"

datatype 'r fetched = Aborted | Rejected string | Responded "'r response"

definition fetchWithTimeout :: "'r fetched \<Rightarrow> js_error + 'r response" where
  "fetchWithTimeout out =
     (case out of
        Responded r \<Rightarrow> Inr r
      | Aborted \<Rightarrow>
          Inl (Error ''Request timeout - the server took too long to respond. Please try again.'')
      | Rejected m \<Rightarrow> Inl (Error m))"

datatype form_value = FileValue File | StringValue string

type_synonym FormData = "(string \<times> form_value) list"

definition formData :: "File \<Rightarrow> int option \<Rightarrow> string option \<Rightarrow> FormData" where
  "formData f age lesionLocation =
     [(''file'', FileValue f)]
     @ (case age of Some a \<Rightarrow> [(''age'', StringValue (toString a))] | None \<Rightarrow> [])
     @ (case lesionLocation of
          Some l \<Rightarrow> if l \<noteq> [] then [(''lesion_location'', StringValue l)] else []
        | None \<Rightarrow> [])"

text \<open>\<^verbatim>\<open>error.detail || fallback\<close>: an absent or empty detail gives the fallback.\<close>

definition or_else :: "string option \<Rightarrow> string \<Rightarrow> string" where
  "or_else d fallback = (case d of None \<Rightarrow> fallback | Some m \<Rightarrow> if m = [] then fallback else m)"

text \<open>
  Reading \<^verbatim>\<open>error.detail\<close> of an error response, where \<^verbatim>\<open>error\<close> is \<^verbatim>\<open>response.json()\<close>
  with the fallback document of its \<^verbatim>\<open>catch\<close>. On the document \<^verbatim>\<open>null\<close> the property
  access throws a \<^verbatim>\<open>TypeError\<close>; its message is the engine's, here V8's.
\<close>

definition error_detail :: "'r body \<Rightarrow> js_error + string option" where
  "error_detail b =
     (case b of
        NotJson _ \<Rightarrow> Inr (Some ''Unknown error'')
      | JsonNull \<Rightarrow> Inl (Error ''Cannot read properties of null (reading 'detail')'')
      | Json d _ \<Rightarrow> Inr d)"

text \<open>
  \<^verbatim>\<open>throw new Error(error.detail || fallback)\<close>: what is thrown is the \<^verbatim>\<open>TypeError\<close> of
  the property access, or the error with the detail or the fallback as its message.
\<close>

definition detail_error :: "'r body \<Rightarrow> string \<Rightarrow> js_error" where
  "detail_error b fallback =
     (case error_detail b of Inl e \<Rightarrow> e | Inr d \<Rightarrow> Error (or_else d fallback))"

text \<open>
  The \<^verbatim>\<open>try\<close> block of \<^verbatim>\<open>predictDisease\<close>. \<open>Inl e\<close>: \<open>e\<close> is thrown inside the block and so
  reaches the \<^verbatim>\<open>catch\<close> clause. \<open>Inr r\<close>: the block returns the promise
  \<^verbatim>\<open>response.json()\<close>, not awaited, which settles as \<open>r\<close> outside the \<^verbatim>\<open>try\<close>; a
  fulfilled promise carries the document, \<open>None\<close> for \<^verbatim>\<open>null\<close>. The detail is read only in
  the branches for status 400 and for the other statuses.
\<close>

definition try_block :: "'r fetched \<Rightarrow> js_error + (js_error + 'r option)" where
  "try_block out =
     (case fetchWithTimeout out of
        Inl e \<Rightarrow> Inl e
      | Inr response \<Rightarrow>
          if \<not> ok response then
            (if status response = 413 then Inl (Error ''File too large. Maximum size is 10MB.'')
             else if status response = 400 then
               Inl (detail_error (body response)
                      ''Invalid image file. Please upload a clear JPEG or PNG image.'')
             else if status response = 429 then
               Inl (Error ''Too many requests. Please wait a moment and try again.'')
             else Inl (detail_error (body response) ''Prediction failed. Please try again.''))
          else Inr (case body response of
                      NotJson m \<Rightarrow> Inl (Error m)
                    | JsonNull \<Rightarrow> Inr None
                    | Json _ r \<Rightarrow> Inr (Some r)))"

definition retryable :: "js_error \<Rightarrow> bool" where
  "retryable e =
     (str_includes (err_message e) ''network'' \<or> str_includes (err_message e) ''fetch''
      \<or> str_includes (err_message e) ''timeout'')"

text \<open>
  What the client does, in order: a request with its form data, or a wait of so many
  milliseconds before the next attempt.
\<close>

datatype event = Request FormData | Sleep nat

text \<open>
  \<^verbatim>\<open>predictDisease\<close>. \<open>net k\<close> is what the network does with the request made at
  \<^verbatim>\<open>retryCount\<close> \<open>k\<close>. The result is what the client did and how the promise settles.
\<close>

function predictDisease ::
    "(nat \<Rightarrow> 'r fetched) \<Rightarrow> File \<Rightarrow> int option \<Rightarrow> string option \<Rightarrow> nat
       \<Rightarrow> event list \<times> (js_error + 'r option)" where
  "predictDisease net f age lesionLocation retryCount =
     (case try_block (net retryCount) of
        Inr r \<Rightarrow> ([Request (formData f age lesionLocation)], r)
      | Inl e \<Rightarrow>
          if retryCount < MAX_RETRIES \<and> retryable e then
            (let (evs, r) = predictDisease net f age lesionLocation (retryCount + 1)
             in (Request (formData f age lesionLocation) # Sleep (1000 * 2 ^ retryCount) # evs, r))
          else ([Request (formData f age lesionLocation)], Inl e))"
  by pat_completeness auto
termination
  by (relation "measure (\<lambda>(net, f, age, lesionLocation, retryCount). MAX_RETRIES - retryCount)")
     auto

declare predictDisease.simps [simp del]

text \<open>
  A network that answers the first requests as the list says and every later one with
  \<open>last_out\<close>.
\<close>

definition scripted :: "'r fetched list \<Rightarrow> 'r fetched \<Rightarrow> nat \<Rightarrow> 'r fetched" where
  "scripted outs last_out k = (if k < length outs then outs ! k else last_out)"

fun requests :: "event list \<Rightarrow> FormData list" where
  "requests [] = []"
| "requests (Request d # evs) = d # requests evs"
| "requests (Sleep _ # evs) = requests evs"

fun sleeps :: "event list \<Rightarrow> nat list" where
  "sleeps [] = []"
| "sleeps (Request _ # evs) = sleeps evs"
| "sleeps (Sleep ms # evs) = ms # sleeps evs"

subsection \<open>app/page.tsx\<close>

record 'r page_state =
  selectedImage :: "File option"
  imagePreview :: "string option"
  age :: "int option"
  lesionLocation :: string
  isLoading :: bool
  prediction :: "'r option"
  error :: "string option"

definition handleImageSelect :: "File option \<Rightarrow> 'r page_state \<Rightarrow> 'r page_state" where
  "handleImageSelect fo st =
     (case fo of
        Some f \<Rightarrow> st\<lparr>selectedImage := Some f, imagePreview := Some (data_url f)\<rparr>
      | None \<Rightarrow> st\<lparr>selectedImage := None, imagePreview := None\<rparr>)"

text \<open>
  \<^verbatim>\<open>handlePredict\<close>: what was sent, and the page state once the handler has finished.
\<close>

definition handlePredict ::
    "(nat \<Rightarrow> 'r fetched) \<Rightarrow> 'r page_state \<Rightarrow> event list \<times> 'r page_state" where
  "handlePredict net st =
     (case selectedImage st of
        None \<Rightarrow> ([], st\<lparr>error := Some ''Please upload an image first''\<rparr>)
      | Some img \<Rightarrow>
          if lesionLocation st = [] then ([], st\<lparr>error := Some ''Please select a lesion location''\<rparr>)
          else
            (let st' = st\<lparr>isLoading := True, error := None, prediction := None\<rparr>;
                 (evs, res) = predictDisease net img (age st) (Some (lesionLocation st)) 0
             in case res of
                  Inr result \<Rightarrow> (evs, st'\<lparr>prediction := result, isLoading := False\<rparr>)
                | Inl err \<Rightarrow>
                    (evs, st'\<lparr>error := Some (or_else (Some (err_message err))
                                         ''An error occurred during prediction''),
                              isLoading := False\<rparr>)))"

section \<open>The inference and triage core\<close>

text \<open>
  The back end (\<^verbatim>\<open>backend/model/model_loader.py\<close>, \<^verbatim>\<open>backend/model/config.py\<close>) is not
  among the sources; the front end has only its result types (\<^verbatim>\<open>lib/types.ts\<close>) and the
  documentation its thresholds and class list. The definitions of this section follow the
  specification's text. Probabilities are real numbers: the rounding of floating-point
  arithmetic is not part of the model.
\<close>

text \<open>
  Modelled from the spec: the class list of \<^verbatim>\<open>config.py\<close> is missing. Section 3: the class
  set is exactly Acne, Cherry Angioma, Melanoma, Psoriasis, in this order.
\<close>

datatype disease = Acne | Cherry_Angioma | Melanoma | Psoriasis

definition CLASS_NAMES :: "disease list" where
  "CLASS_NAMES = [Acne, Cherry_Angioma, Melanoma, Psoriasis]"

fun class_name :: "disease \<Rightarrow> string" where
  "class_name Acne = ''Acne''"
| "class_name Cherry_Angioma = ''Cherry Angioma''"
| "class_name Melanoma = ''Melanoma''"
| "class_name Psoriasis = ''Psoriasis''"

text \<open>
  Modelled from the spec: the probability vector of \<^verbatim>\<open>model_loader.py\<close> is missing.
  Section 3: an ordered mapping from the four classes to probabilities. \<open>vec\<close> is the
  vector with the given four entries, in canonical order.
\<close>

type_synonym ProbabilityVector = "disease \<Rightarrow> real"

fun vec :: "real \<Rightarrow> real \<Rightarrow> real \<Rightarrow> real \<Rightarrow> ProbabilityVector" where
  "vec a c m p Acne = a"
| "vec a c m p Cherry_Angioma = c"
| "vec a c m p Melanoma = m"
| "vec a c m p Psoriasis = p"

text \<open>
  Modelled from the spec: the assembly of the result in \<^verbatim>\<open>model_loader.py\<close> is missing.
  Section 6: \<^verbatim>\<open>class_probabilities\<close> is the map from class name to probability.
\<close>

definition class_probabilities :: "ProbabilityVector \<Rightarrow> (string \<times> real) list" where
  "class_probabilities p = map (\<lambda>d. (class_name d, p d)) CLASS_NAMES"

text \<open>\<^verbatim>\<open>TriageInfo\<close> of \<^verbatim>\<open>lib/types.ts\<close>, with the four values of its \<^verbatim>\<open>level\<close>.\<close>

datatype triage_level = LOW | MEDIUM | HIGH | CRITICAL

record TriageInfo =
  level :: triage_level
  message :: string
  requires_immediate_attention :: bool
  melanoma_probability :: real

text \<open>
  Modelled from the spec: the ordering of the levels is in no source. Section 8:
  LOW < MEDIUM < HIGH < CRITICAL.
\<close>

fun severity :: "triage_level \<Rightarrow> nat" where
  "severity LOW = 0"
| "severity MEDIUM = 1"
| "severity HIGH = 2"
| "severity CRITICAL = 3"

text \<open>
  Modelled from the spec: the back end's triage calculation (\<^verbatim>\<open>model_loader.py\<close>) is missing.
  Section 4.3: rule 1, melanoma probability at least 0.50, CRITICAL; rule 2, else at least
  0.30, HIGH; rule 3, else the maximum of the vector at least 0.70, MEDIUM; rule 4, else
  LOW; \<^verbatim>\<open>requires_immediate_attention\<close> is set for CRITICAL and HIGH. The message is a
  template per level around the melanoma probability as a percentage; the templates are a
  parameter.
\<close>

definition max_probability :: "ProbabilityVector \<Rightarrow> real" where
  "max_probability p = Max (set (map p CLASS_NAMES))"

definition triage_level_of :: "ProbabilityVector \<Rightarrow> triage_level" where
  "triage_level_of p =
     (if p Melanoma \<ge> 0.50 then CRITICAL
      else if p Melanoma \<ge> 0.30 then HIGH
      else if max_probability p \<ge> 0.70 then MEDIUM
      else LOW)"

definition classify :: "(triage_level \<Rightarrow> real \<Rightarrow> string) \<Rightarrow> ProbabilityVector \<Rightarrow> TriageInfo" where
  "classify template p =
     (let l = triage_level_of p in
      \<lparr>level = l,
       message = template l (p Melanoma * 100),
       requires_immediate_attention = (l = CRITICAL \<or> l = HIGH),
       melanoma_probability = p Melanoma\<rparr>)"

text \<open>
  Modelled from the spec: the sweep of the monotonicity test is in no source. Section 8:
  the other classes are scaled proportionally. Two vectors have their non-melanoma classes
  in the same relative proportions when the three entries of one are those of the other
  scaled by a common factor, that is, when their cross products agree.
\<close>

definition same_proportions :: "ProbabilityVector \<Rightarrow> ProbabilityVector \<Rightarrow> bool" where
  "same_proportions p q =
     (p Acne * q Cherry_Angioma = q Acne * p Cherry_Angioma
      \<and> p Acne * q Psoriasis = q Acne * p Psoriasis
      \<and> p Cherry_Angioma * q Psoriasis = q Cherry_Angioma * p Psoriasis)"

text \<open>
  Modelled from the spec: the inference engine (\<^verbatim>\<open>model_loader.py\<close>) is missing. Section 4.2:
  the real model passes the network's raw outputs through softmax; the placeholder hashes
  the tensor, seeds a generator with the hash, draws weights from it and normalizes them.
  The network, the hash and the generator are parameters; \<open>'t\<close> is the tensor. The
  placeholder's weights for a tensor are \<open>usable\<close> when none is negative and not all
  are zero.
\<close>

definition normalize :: "(disease \<Rightarrow> real) \<Rightarrow> ProbabilityVector" where
  "normalize w = (\<lambda>d. w d / sum_list (map w CLASS_NAMES))"

definition softmax :: "(disease \<Rightarrow> real) \<Rightarrow> ProbabilityVector" where
  "softmax z = normalize (\<lambda>d. exp (z d))"

datatype 't backend =
    RealModel "'t \<Rightarrow> disease \<Rightarrow> real"
  | PlaceholderModel "'t \<Rightarrow> nat" "nat \<Rightarrow> disease \<Rightarrow> real"

fun predict :: "'t backend \<Rightarrow> 't \<Rightarrow> ProbabilityVector" where
  "predict (RealModel network) tensor = softmax (network tensor)"
| "predict (PlaceholderModel content_hash weights) tensor = normalize (weights (content_hash tensor))"

fun usable :: "'t backend \<Rightarrow> 't \<Rightarrow> bool" where
  "usable (RealModel network) tensor = True"
| "usable (PlaceholderModel content_hash weights) tensor =
     (list_all (\<lambda>d. 0 \<le> weights (content_hash tensor) d) CLASS_NAMES
      \<and> list_ex (\<lambda>d. 0 < weights (content_hash tensor) d) CLASS_NAMES)"

text \<open>
  Modelled from the spec: the invariant is checked by no source. Section 8: every value
  lies in [0,1] and the sum lies within 1e-6 of 1.
\<close>

definition simplex :: "ProbabilityVector \<Rightarrow> bool" where
  "simplex p =
     (list_all (\<lambda>d. 0 \<le> p d \<and> p d \<le> 1) CLASS_NAMES
      \<and> \<bar>sum_list (map p CLASS_NAMES) - 1\<bar> \<le> 1 / 1000000)"

section \<open>Resolution validation\<close>

text \<open>
  C5. An image that loads and whose width or height is below 100 pixels is rejected with
  the low-resolution error; an image of at least 100 by 100 pixels is accepted (the promise
  resolves with true).
\<close>

theorem validateImageQuality_resolution:
  assumes "decoded f = Some img"
  shows "(width img < 100 \<or> height img < 100 \<longrightarrow>
            validateImageQuality f =
              Inl (Error ''Image resolution too low. Minimum required: 100x100 pixels.''))
       \<and> (100 \<le> width img \<and> 100 \<le> height img \<longrightarrow> validateImageQuality f = Inr True)"
  using assms by (auto simp: validateImageQuality_def)

text \<open>A 99 by 99 image is rejected, a 100 by 100 image is accepted.\<close>

theorem validateImageQuality_resolution_witness:
  "validateImageQuality \<lparr>file_type = ''image/png'', file_size = 20480,
       decoded = Some \<lparr>width = 99, height = 99\<rparr>, data_url = ''data:image/png;base64,''\<rparr>
     = Inl (Error ''Image resolution too low. Minimum required: 100x100 pixels.'')
   \<and> validateImageQuality \<lparr>file_type = ''image/png'', file_size = 20480,
       decoded = Some \<lparr>width = 100, height = 100\<rparr>, data_url = ''data:image/png;base64,''\<rparr>
     = Inr True"
  using validateImageQuality_resolution
      [of "\<lparr>file_type = ''image/png'', file_size = 20480,
            decoded = Some \<lparr>width = 99, height = 99\<rparr>, data_url = ''data:image/png;base64,''\<rparr>"
          "\<lparr>width = 99, height = 99\<rparr>"]
    validateImageQuality_resolution
      [of "\<lparr>file_type = ''image/png'', file_size = 20480,
            decoded = Some \<lparr>width = 100, height = 100\<rparr>, data_url = ''data:image/png;base64,''\<rparr>"
          "\<lparr>width = 100, height = 100\<rparr>"]
  by simp

text \<open>
  C6. An image below 50 pixels should be rejected with the message for corrupted images.
  The test for it comes after the test against 100 pixels, which such an image has already
  failed: a 40 by 40 image gets the low-resolution message, not the corrupted one.
\<close>

theorem validateImageQuality_corrupted_branch_dead:
  "validateImageQuality \<lparr>file_type = ''image/png'', file_size = 20480,
       decoded = Some \<lparr>width = 40, height = 40\<rparr>, data_url = ''data:image/png;base64,''\<rparr>
     = Inl (Error ''Image resolution too low. Minimum required: 100x100 pixels.'')
   \<and> validateImageQuality \<lparr>file_type = ''image/png'', file_size = 20480,
       decoded = Some \<lparr>width = 40, height = 40\<rparr>, data_url = ''data:image/png;base64,''\<rparr>
     \<noteq> Inl (Error ''Image appears to be corrupted or invalid.'')"
  by (simp add: validateImageQuality_def)

text \<open>No image at all gets the message of the second test.\<close>

lemma validateImageQuality_never_corrupted:
  "validateImageQuality f \<noteq> Inl (Error ''Image appears to be corrupted or invalid.'')"
  by (auto simp: validateImageQuality_def split: option.splits)

section \<open>The upload handler\<close>

text \<open>
  C9. For a file larger than 10MB, or whose type does not start with \<^verbatim>\<open>image/\<close>, or that
  \<^verbatim>\<open>validateImageQuality\<close> rejects, \<^verbatim>\<open>handleFile\<close> returns without calling
  \<^verbatim>\<open>onImageSelect\<close>: whatever the callback is, the parent's state is as it was.
\<close>

theorem handleFile_rejection:
  assumes "file_size f > 10 * 1024 * 1024 \<or> \<not> prefix ''image/'' (file_type f)
           \<or> (\<exists>e. validateImageQuality f = Inl e)"
  shows "snd (handleFile onImageSelect f (s, p)) = p"
  using assms by (auto simp: handleFile_def Let_def split: sum.splits)

text \<open>
  A JPEG of 10MB and one byte, a PDF, and a PNG of 40 by 40 pixels, with the page's
  \<^verbatim>\<open>handleImageSelect\<close> as the callback: no image is selected afterwards.
\<close>

theorem handleFile_rejection_witness:
  "selectedImage (snd (handleFile (\<lambda>f. handleImageSelect (Some f))
      \<lparr>file_type = ''image/jpeg'', file_size = 10 * 1024 * 1024 + 1,
        decoded = Some \<lparr>width = 640, height = 480\<rparr>, data_url = ''data:image/jpeg;base64,''\<rparr>
      (\<lparr>uploadProgress = 0, preview = None, alerts = []\<rparr>,
       \<lparr>selectedImage = None, imagePreview = None, age = None, lesionLocation = [],
          isLoading = False, prediction = (None :: unit option), error = None\<rparr>))) = None
   \<and> selectedImage (snd (handleFile (\<lambda>f. handleImageSelect (Some f))
      \<lparr>file_type = ''application/pdf'', file_size = 20480,
        decoded = None, data_url = ''data:application/pdf;base64,''\<rparr>
      (\<lparr>uploadProgress = 0, preview = None, alerts = []\<rparr>,
       \<lparr>selectedImage = None, imagePreview = None, age = None, lesionLocation = [],
          isLoading = False, prediction = (None :: unit option), error = None\<rparr>))) = None
   \<and> selectedImage (snd (handleFile (\<lambda>f. handleImageSelect (Some f))
      \<lparr>file_type = ''image/png'', file_size = 20480,
        decoded = Some \<lparr>width = 40, height = 40\<rparr>, data_url = ''data:image/png;base64,''\<rparr>
      (\<lparr>uploadProgress = 0, preview = None, alerts = []\<rparr>,
       \<lparr>selectedImage = None, imagePreview = None, age = None, lesionLocation = [],
          isLoading = False, prediction = (None :: unit option), error = None\<rparr>))) = None"
proof -
  let ?select = "\<lambda>f. handleImageSelect (Some f) :: unit page_state \<Rightarrow> unit page_state"
  let ?s = "\<lparr>uploadProgress = 0, preview = None, alerts = []\<rparr>"
  let ?p = "\<lparr>selectedImage = None, imagePreview = None, age = None, lesionLocation = [],
          isLoading = False, prediction = (None :: unit option), error = None\<rparr>"
  let ?big = "\<lparr>file_type = ''image/jpeg'', file_size = 10 * 1024 * 1024 + 1,
        decoded = Some \<lparr>width = 640, height = 480\<rparr>, data_url = ''data:image/jpeg;base64,''\<rparr>"
  let ?pdf = "\<lparr>file_type = ''application/pdf'', file_size = 20480,
        decoded = None, data_url = ''data:application/pdf;base64,''\<rparr>"
  let ?tiny = "\<lparr>file_type = ''image/png'', file_size = 20480,
        decoded = Some \<lparr>width = 40, height = 40\<rparr>, data_url = ''data:image/png;base64,''\<rparr>"
  have tiny: "\<exists>e. validateImageQuality ?tiny = Inl e"
    by (simp add: validateImageQuality_def)
  from handleFile_rejection [of ?big ?select ?s ?p] handleFile_rejection [of ?pdf ?select ?s ?p]
    handleFile_rejection [of ?tiny ?select ?s ?p] tiny
  show ?thesis by simp
qed

text \<open>Every other file reaches the callback.\<close>

lemma handleFile_accepts:
  assumes "file_size f \<le> 10 * 1024 * 1024" "prefix ''image/'' (file_type f)"
    "validateImageQuality f = Inr b"
  shows "snd (handleFile onImageSelect f (s, p)) = onImageSelect f p"
  using assms by (auto simp: handleFile_def Let_def split: sum.splits)

section \<open>The age input\<close>

text \<open>\<^verbatim>\<open>parseInt\<close> reads the decimal numeral of an integer back.\<close>

lemma digits10_chars: "\<forall>c \<in> set (digits10 n). 48 \<le> (of_char c :: nat) \<and> (of_char c :: nat) \<le> 57"
proof (induction n rule: digits10.induct)
  case (1 n)
  show ?case
  proof (cases "n < 10")
    case True
    then show ?thesis by (subst digits10.simps) simp
  next
    case False
    have "n mod 10 < 10" by simp
    then have m: "(48 + n mod 10) mod 256 = 48 + n mod 10" by simp
    from False 1 have ih: "\<forall>c \<in> set (digits10 (n div 10)). 48 \<le> (of_char c :: nat) \<and> (of_char c :: nat) \<le> 57"
      by simp
    show ?thesis
      using False ih m by (subst digits10.simps) auto
  qed
qed

lemma digits10_nonempty: "digits10 n \<noteq> []"
  by (subst digits10.simps) simp

lemma isDigit_decimal: "48 \<le> (of_char c :: nat) \<Longrightarrow> (of_char c :: nat) \<le> 57 \<Longrightarrow> isDigit 10 c"
  by (simp add: isDigit_def digitValue_def Let_def)

lemma digitValue_decimal: "k < 10 \<Longrightarrow> digitValue (char_of (48 + k)) = Some k"
  by (simp add: digitValue_def Let_def)

lemma mathInt_snoc: "mathInt R (Z @ [c]) = (case digitValue c of Some d \<Rightarrow> mathInt R Z * R + d | None \<Rightarrow> mathInt R Z)"
  by (simp add: mathInt_def split: option.split)

lemma mathInt_digits10: "mathInt 10 (digits10 n) = n"
proof (induction n rule: digits10.induct)
  case (1 n)
  show ?case
  proof (cases "n < 10")
    case True
    then show ?thesis
      by (subst digits10.simps) (simp add: mathInt_def digitValue_decimal)
  next
    case False
    with 1 have ih: "mathInt 10 (digits10 (n div 10)) = n div 10" by simp
    have "digitValue (char_of (48 + n mod 10)) = Some (n mod 10)"
      by (rule digitValue_decimal) simp
    with False ih show ?thesis
      by (subst digits10.simps) (simp add: mathInt_snoc)
  qed
qed

lemma takeWhile_digits10: "takeWhile (isDigit 10) (digits10 n) = digits10 n"
  using digits10_chars [of n] by (auto intro: isDigit_decimal)

lemma dropWhile_digits10: "dropWhile isWhiteSpace (digits10 n) = digits10 n"
proof (cases "digits10 n")
  case Nil
  then show ?thesis by simp
next
  case (Cons c cs)
  with digits10_chars [of n] have "48 \<le> (of_char c :: nat) \<and> (of_char c :: nat) \<le> 57" by simp
  then have "\<not> isWhiteSpace c" by (auto simp: isWhiteSpace_def)
  with Cons show ?thesis by simp
qed

lemma stripSign_digits10: "stripSign (digits10 n) = (1, digits10 n)"
proof (cases "digits10 n")
  case Nil
  then show ?thesis by simp
next
  case (Cons c cs)
  with digits10_chars [of n] have "48 \<le> (of_char c :: nat)" by simp
  then have "c \<noteq> CHR ''-''" "c \<noteq> CHR ''+''" by auto
  with Cons show ?thesis by simp
qed

lemma stripPrefix_digits10: "stripPrefix (digits10 n) = (10, digits10 n)"
proof (cases "digits10 n")
  case Nil
  then show ?thesis by simp
next
  case outer: (Cons a as)
  show ?thesis
  proof (cases as)
    case Nil
    with outer show ?thesis by simp
  next
    case (Cons b cs)
    with outer digits10_chars [of n] have "(of_char b :: nat) \<le> 57" by simp
    then have "b \<noteq> CHR ''x''" "b \<noteq> CHR ''X''" by auto
    with outer Cons show ?thesis by simp
  qed
qed

lemma parseInt_digits10: "parseInt (digits10 n) = Some (int n)"
  by (simp add: parseInt_def dropWhile_digits10 stripSign_digits10 stripPrefix_digits10
      takeWhile_digits10 digits10_nonempty mathInt_digits10)

lemma parseInt_toString: "parseInt (toString i) = Some i"
proof (cases "i < 0")
  case True
  then show ?thesis
    by (simp add: toString_def parseInt_def isWhiteSpace_def stripPrefix_digits10
      takeWhile_digits10 digits10_nonempty mathInt_digits10)
next
  case False
  then show ?thesis by (simp add: toString_def parseInt_digits10)
qed

lemma toString_nonempty: "toString i \<noteq> []"
  by (simp add: toString_def digits10_nonempty)

text \<open>
  C8, as stated, fails: an entry that is not an integer but starts with one changes the
  stored age. \<^verbatim>\<open>12.5\<close> stores 12 and \<^verbatim>\<open>1e3\<close> stores 1.
\<close>

theorem handleAgeChange_counterexample:
  "handleAgeChange ''12.5'' (Some 40) = Some 12 \<and> handleAgeChange ''12.5'' (Some 40) \<noteq> Some 40
   \<and> handleAgeChange ''1e3'' (Some 40) = Some 1"
  by code_simp

text \<open>
  C8, amended. The empty entry stores null. The numeral of an integer from 0 to 150 stores
  that integer; the numeral of any other integer leaves the stored age as it was, neither
  clamped nor passed through. In general the entry counts as the integer \<^verbatim>\<open>parseInt\<close>
  reads at its start: in range it is stored, out of range or absent the stored age stays.
\<close>

theorem handleAgeChange_reads_leading_integer:
  "handleAgeChange [] stored = None
   \<and> (0 \<le> n \<and> n \<le> 150 \<longrightarrow> handleAgeChange (toString n) stored = Some n)
   \<and> (n < 0 \<or> 150 < n \<longrightarrow> handleAgeChange (toString n) stored = stored)
   \<and> (v \<noteq> [] \<and> parseInt v = None \<longrightarrow> handleAgeChange v stored = stored)
   \<and> (v \<noteq> [] \<and> parseInt v = Some k \<longrightarrow>
        handleAgeChange v stored = (if 0 \<le> k \<and> k \<le> 150 then Some k else stored))"
  by (simp add: handleAgeChange_def parseInt_toString toString_nonempty)

theorem handleAgeChange_reads_leading_integer_witness:
  "handleAgeChange [] (Some 40) = None
   \<and> handleAgeChange (toString 150) (Some 40) = Some 150
   \<and> handleAgeChange (toString 151) (Some 40) = Some 40
   \<and> handleAgeChange ''abc'' (Some 40) = Some 40
   \<and> handleAgeChange ''12.5'' (Some 40) = Some 12"
proof -
  have a: "parseInt ''abc'' = None" by code_simp
  have b: "parseInt ''12.5'' = Some 12" by code_simp
  show ?thesis
    using handleAgeChange_reads_leading_integer [of "Some 40" 150 "''abc''" 0]
      handleAgeChange_reads_leading_integer [of "Some 40" 151 "''12.5''" 12] a b
    by simp
qed

section \<open>Retries of the API client\<close>

text \<open>The three ways one call of \<^verbatim>\<open>predictDisease\<close> goes on after its \<^verbatim>\<open>try\<close> block.\<close>

lemma predictDisease_no_retry:
  assumes "try_block (net k) = Inl e" "\<not> (k < MAX_RETRIES \<and> retryable e)"
  shows "predictDisease net f a l k = ([Request (formData f a l)], Inl e)"
  using assms by (subst predictDisease.simps) auto

lemma predictDisease_settled:
  assumes "try_block (net k) = Inr r"
  shows "predictDisease net f a l k = ([Request (formData f a l)], r)"
  using assms by (subst predictDisease.simps) simp

lemma predictDisease_retry:
  assumes "try_block (net k) = Inl e" "k < MAX_RETRIES" "retryable e"
  shows "predictDisease net f a l k =
           (Request (formData f a l) # Sleep (1000 * 2 ^ k) # fst (predictDisease net f a l (k + 1)),
            snd (predictDisease net f a l (k + 1)))"
  using assms by (subst predictDisease.simps) (simp add: case_prod_beta)

lemma predictDisease_cases:
  obtains (settled) r where "try_block (net k) = Inr r"
    | (thrown) e where "try_block (net k) = Inl e" "\<not> (k < MAX_RETRIES \<and> retryable e)"
    | (retry) e where "try_block (net k) = Inl e" "k < MAX_RETRIES" "retryable e"
  by (cases "try_block (net k)") auto

lemma requests_predictDisease:
  "requests (fst (predictDisease net f a l k)) =
     replicate (length (requests (fst (predictDisease net f a l k)))) (formData f a l)"
proof (induction k rule: measure_induct_rule [where f = "\<lambda>k. MAX_RETRIES - k"])
  case (less k)
  show ?case
  proof (cases rule: predictDisease_cases [of net k])
    case (settled r)
    then show ?thesis by (simp add: predictDisease_settled)
  next
    case (thrown e)
    then show ?thesis by (simp add: predictDisease_no_retry)
  next
    case (retry e)
    then have "MAX_RETRIES - (k + 1) < MAX_RETRIES - k" by simp
    from less [OF this] retry show ?thesis
      by (simp add: predictDisease_retry)
  qed
qed

lemma length_requests_predictDisease:
  "1 \<le> length (requests (fst (predictDisease net f a l k)))
   \<and> length (requests (fst (predictDisease net f a l k))) \<le> max 1 (MAX_RETRIES + 1 - k)"
proof (induction k rule: measure_induct_rule [where f = "\<lambda>k. MAX_RETRIES - k"])
  case (less k)
  show ?case
  proof (cases rule: predictDisease_cases [of net k])
    case (settled r)
    then show ?thesis by (simp add: predictDisease_settled)
  next
    case (thrown e)
    then show ?thesis by (simp add: predictDisease_no_retry)
  next
    case (retry e)
    then have "MAX_RETRIES - (k + 1) < MAX_RETRIES - k" by simp
    from less [OF this] retry show ?thesis
      by (auto simp: predictDisease_retry)
  qed
qed

lemma sleeps_predictDisease:
  "sleeps (fst (predictDisease net f a l k)) =
     map (\<lambda>i. 1000 * 2 ^ i) [k ..< k + (length (requests (fst (predictDisease net f a l k))) - 1)]"
proof (induction k rule: measure_induct_rule [where f = "\<lambda>k. MAX_RETRIES - k"])
  case (less k)
  show ?case
  proof (cases rule: predictDisease_cases [of net k])
    case (settled r)
    then show ?thesis by (simp add: predictDisease_settled)
  next
    case (thrown e)
    then show ?thesis by (simp add: predictDisease_no_retry)
  next
    case (retry e)
    then have "MAX_RETRIES - (k + 1) < MAX_RETRIES - k" by simp
    from less [OF this] have ih: "sleeps (fst (predictDisease net f a l (k + 1))) =
      map (\<lambda>i. 1000 * 2 ^ i) [k + 1 ..< k + 1 + (length (requests (fst (predictDisease net f a l (k + 1)))) - 1)]" .
    obtain m where m: "length (requests (fst (predictDisease net f a l (k + 1)))) = Suc m"
      using length_requests_predictDisease [of net f a l "k + 1"]
      by (cases "length (requests (fst (predictDisease net f a l (k + 1))))") auto
    have "[k ..< k + Suc m] = k # [Suc k ..< k + Suc m]"
      by (rule upt_conv_Cons) simp
    with retry ih m show ?thesis
      by (simp add: predictDisease_retry)
  qed
qed

lemma not_retryable_413: "\<not> retryable (Error ''File too large. Maximum size is 10MB.'')"
  by code_simp

lemma not_retryable_429: "\<not> retryable (Error ''Too many requests. Please wait a moment and try again.'')"
  by code_simp

lemma not_retryable_400: "\<not> retryable (Error ''Invalid image file. Please upload a clear JPEG or PNG image.'')"
  by code_simp

lemma not_retryable_unknown: "\<not> retryable (Error ''Unknown error'')"
  by code_simp

lemma try_block_413: "status r = 413 \<Longrightarrow> try_block (Responded r) = Inl (Error ''File too large. Maximum size is 10MB.'')"
  by (simp add: try_block_def fetchWithTimeout_def ok_def)

lemma try_block_429: "status r = 429 \<Longrightarrow> try_block (Responded r) = Inl (Error ''Too many requests. Please wait a moment and try again.'')"
  by (simp add: try_block_def fetchWithTimeout_def ok_def)

lemma try_block_400: "status r = 400 \<Longrightarrow> try_block (Responded r) =
    Inl (detail_error (body r) ''Invalid image file. Please upload a clear JPEG or PNG image.'')"
  by (simp add: try_block_def fetchWithTimeout_def ok_def)

lemma not_retryable_null_detail: "\<not> retryable (detail_error JsonNull fallback)"
proof -
  have "\<not> retryable (Error ''Cannot read properties of null (reading 'detail')'')"
    by code_simp
  then show ?thesis
    by (simp add: detail_error_def error_detail_def)
qed

text \<open>
  What holds of every call. It makes at least one request and at most \<^verbatim>\<open>MAX_RETRIES\<close> + 1
  = 3 from \<^verbatim>\<open>retryCount\<close> 0; the waits before the retries are 1000 * 2 ^ \<^verbatim>\<open>retryCount\<close>
  milliseconds; a second request is made only when the first one failed with a message
  that contains \<^verbatim>\<open>network\<close>, \<^verbatim>\<open>fetch\<close> or \<^verbatim>\<open>timeout\<close>; and a response with status 413 or
  429, or with status 400 and an error without these words in its message, is thrown
  after that single request.
\<close>

lemma predictDisease_bounded_retries:
  "1 \<le> length (requests (fst (predictDisease net f a l k)))
   \<and> length (requests (fst (predictDisease net f a l k))) \<le> max 1 (MAX_RETRIES + 1 - k)
   \<and> max 1 (MAX_RETRIES + 1 - 0) = 3
   \<and> sleeps (fst (predictDisease net f a l k)) =
       map (\<lambda>i. 1000 * 2 ^ i) [k ..< k + (length (requests (fst (predictDisease net f a l k))) - 1)]
   \<and> (1 < length (requests (fst (predictDisease net f a l k))) \<longrightarrow>
        k < MAX_RETRIES \<and> (\<exists>e. try_block (net k) = Inl e \<and> retryable e))
   \<and> (net k = Responded r
        \<and> (status r = 413 \<or> status r = 429
           \<or> status r = 400
             \<and> \<not> retryable (detail_error (body r)
                     ''Invalid image file. Please upload a clear JPEG or PNG image.'')) \<longrightarrow>
        (\<exists>e. try_block (net k) = Inl e \<and> \<not> retryable e
           \<and> predictDisease net f a l k = ([Request (formData f a l)], Inl e)))"
proof -
  have bound: "1 \<le> length (requests (fst (predictDisease net f a l k)))
      \<and> length (requests (fst (predictDisease net f a l k))) \<le> max 1 (MAX_RETRIES + 1 - k)"
    by (rule length_requests_predictDisease)
  have three: "max 1 (MAX_RETRIES + 1 - 0) = 3"
    by (simp add: MAX_RETRIES_def)
  have backoff: "sleeps (fst (predictDisease net f a l k)) =
       map (\<lambda>i. 1000 * 2 ^ i) [k ..< k + (length (requests (fst (predictDisease net f a l k))) - 1)]"
    by (rule sleeps_predictDisease)
  have only: "1 < length (requests (fst (predictDisease net f a l k))) \<longrightarrow>
        k < MAX_RETRIES \<and> (\<exists>e. try_block (net k) = Inl e \<and> retryable e)"
  proof (cases rule: predictDisease_cases [of net k])
    case (settled r)
    then show ?thesis by (simp add: predictDisease_settled)
  next
    case (thrown e)
    then show ?thesis by (simp add: predictDisease_no_retry)
  next
    case (retry e)
    then show ?thesis by simp
  qed
  have http: "\<exists>e. try_block (net k) = Inl e \<and> \<not> retryable e
           \<and> predictDisease net f a l k = ([Request (formData f a l)], Inl e)"
    if r: "net k = Responded r"
      and st: "status r = 413 \<or> status r = 429
           \<or> status r = 400
             \<and> \<not> retryable (detail_error (body r)
                     ''Invalid image file. Please upload a clear JPEG or PNG image.'')"
  proof -
    from st consider (too_large) "status r = 413" | (too_many) "status r = 429"
      | (invalid) "status r = 400"
          "\<not> retryable (detail_error (body r)
                     ''Invalid image file. Please upload a clear JPEG or PNG image.'')"
      by blast
    then obtain e where e: "try_block (Responded r) = Inl e" "\<not> retryable e"
    proof cases
      case too_large
      from try_block_413 [OF this] not_retryable_413 that show ?thesis by blast
    next
      case too_many
      from try_block_429 [OF this] not_retryable_429 that show ?thesis by blast
    next
      case invalid
      from try_block_400 [OF invalid(1)] invalid(2) that show ?thesis by blast
    qed
    with r have "predictDisease net f a l k = ([Request (formData f a l)], Inl e)"
      by (simp add: predictDisease_no_retry)
    with e r show ?thesis by simp
  qed
  have http': "net k = Responded r
        \<and> (status r = 413 \<or> status r = 429
           \<or> status r = 400
             \<and> \<not> retryable (detail_error (body r)
                     ''Invalid image file. Please upload a clear JPEG or PNG image.'')) \<longrightarrow>
        (\<exists>e. try_block (net k) = Inl e \<and> \<not> retryable e
           \<and> predictDisease net f a l k = ([Request (formData f a l)], Inl e))"
  proof (intro impI, elim conjE)
    assume "net k = Responded r"
      and "status r = 413 \<or> status r = 429
           \<or> status r = 400
             \<and> \<not> retryable (detail_error (body r)
                     ''Invalid image file. Please upload a clear JPEG or PNG image.'')"
    then show "\<exists>e. try_block (net k) = Inl e \<and> \<not> retryable e
           \<and> predictDisease net f a l k = ([Request (formData f a l)], Inl e)"
      by (rule http)
  qed
  from bound have lower: "1 \<le> length (requests (fst (predictDisease net f a l k)))"
    and upper: "length (requests (fst (predictDisease net f a l k))) \<le> max 1 (MAX_RETRIES + 1 - k)"
    by (rule conjunct1, rule conjunct2)
  show ?thesis
    by (intro conjI) (rule lower upper three backoff only http')+
qed

text \<open>
  A server that answers 413 gets one request; a network that fails the first request and
  answers the second gets two, 1000 milliseconds apart.
\<close>

lemma predictDisease_bounded_retries_example:
  "predictDisease (scripted [] (Responded \<lparr>status = 413, body = NotJson ''Unexpected token''\<rparr>))
      \<lparr>file_type = ''image/png'', file_size = 20480,
        decoded = Some \<lparr>width = 640, height = 480\<rparr>, data_url = ''data:image/png;base64,''\<rparr>
      None (Some ''Face'') 0
    = ([Request [(''file'', FileValue \<lparr>file_type = ''image/png'', file_size = 20480,
        decoded = Some \<lparr>width = 640, height = 480\<rparr>, data_url = ''data:image/png;base64,''\<rparr>),
        (''lesion_location'', StringValue ''Face'')]],
       Inl (Error ''File too large. Maximum size is 10MB.'') :: js_error + unit option)
   \<and> retryable (Error ''Failed to fetch'')
   \<and> sleeps (fst (predictDisease
        (scripted [Rejected ''Failed to fetch''] (Responded \<lparr>status = 200, body = Json None ()\<rparr>))
      \<lparr>file_type = ''image/png'', file_size = 20480,
        decoded = Some \<lparr>width = 640, height = 480\<rparr>, data_url = ''data:image/png;base64,''\<rparr>
      None (Some ''Face'') 0)) = [1000]"
proof -
  let ?f = "\<lparr>file_type = ''image/png'', file_size = 20480,
        decoded = Some \<lparr>width = 640, height = 480\<rparr>, data_url = ''data:image/png;base64,''\<rparr>"
  let ?r = "\<lparr>status = 413, body = NotJson ''Unexpected token''\<rparr> :: unit response"
  let ?large = "scripted [] (Responded ?r)"
  let ?flaky = "scripted [Rejected ''Failed to fetch'']
      (Responded \<lparr>status = 200, body = Json None ()\<rparr>)"
  have large: "?large 0 = Responded ?r"
    by (simp add: scripted_def)
  have tb: "try_block (?large 0) = Inl (Error ''File too large. Maximum size is 10MB.'')"
    by (simp add: scripted_def try_block_def fetchWithTimeout_def ok_def)
  have fd: "formData ?f None (Some ''Face'') =
      [(''file'', FileValue ?f), (''lesion_location'', StringValue ''Face'')]"
    by (simp add: formData_def)
  have down: "try_block (?flaky 0) = Inl (Error ''Failed to fetch'')"
    by (simp add: scripted_def try_block_def fetchWithTimeout_def)
  have up: "try_block (?flaky (Suc 0)) = Inr (Inr (Some ()))"
    by (simp add: scripted_def try_block_def fetchWithTimeout_def ok_def)
  have rt: "retryable (Error ''Failed to fetch'')"
    by code_simp
  have again: "length (requests (fst (predictDisease ?flaky ?f None (Some ''Face'') (Suc 0)))) = 1"
    using predictDisease_settled [of ?flaky "Suc 0" "Inr (Some ())" ?f None "Some ''Face''"] up
    by simp
  have twice: "length (requests (fst (predictDisease ?flaky ?f None (Some ''Face'') 0))) = 2"
    using predictDisease_retry [of ?flaky 0 "Error ''Failed to fetch''" ?f None "Some ''Face''"]
      down rt again
    by (simp add: MAX_RETRIES_def)
  from predictDisease_bounded_retries [of ?large ?f None "Some ''Face''" 0 ?r] large tb
  have first: "predictDisease ?large ?f None (Some ''Face'') 0
      = ([Request (formData ?f None (Some ''Face''))],
         Inl (Error ''File too large. Maximum size is 10MB.''))"
    by simp
  from predictDisease_bounded_retries [of ?flaky ?f None "Some ''Face''" 0] twice down
  have second: "retryable (Error ''Failed to fetch'')
     \<and> sleeps (fst (predictDisease ?flaky ?f None (Some ''Face'') 0)) = [1000]"
    by simp
  from first second fd show ?thesis by simp
qed

text \<open>
  C10. An HTTP error response should be thrown after a single attempt, the retries being
  for network errors. For status 400 it is not so: the message of the error is the
  \<^verbatim>\<open>detail\<close> the server sent, the error is thrown inside the \<^verbatim>\<open>try\<close> block, and a detail
  with one of the three words in it passes the test of the \<^verbatim>\<open>catch\<close> clause. A server
  that answers 400 with the detail \<^verbatim>\<open>Upload timeout\<close> gets three requests.
\<close>

theorem predictDisease_retries_bad_request:
  "length (requests (fst (predictDisease
      (scripted [] (Responded \<lparr>status = 400, body = Json (Some ''Upload timeout'') ()\<rparr>))
      \<lparr>file_type = ''image/png'', file_size = 20480,
        decoded = Some \<lparr>width = 640, height = 480\<rparr>, data_url = ''data:image/png;base64,''\<rparr>
      None (Some ''Face'') 0))) = 3"
proof -
  let ?net = "scripted [] (Responded \<lparr>status = 400, body = Json (Some ''Upload timeout'') ()\<rparr>)"
  let ?e = "Error ''Upload timeout''"
  have tb: "try_block (?net k) = Inl ?e" for k :: nat
    by (simp add: scripted_def try_block_def fetchWithTimeout_def ok_def detail_error_def
        error_detail_def or_else_def)
  have rt: "retryable ?e"
    by code_simp
  have two: "length (requests (fst (predictDisease ?net f a l (Suc (Suc 0))))) = 1" for f a l
    using predictDisease_no_retry [of ?net "Suc (Suc 0)" ?e f a l] tb
    by (simp add: MAX_RETRIES_def)
  have one: "length (requests (fst (predictDisease ?net f a l (Suc 0)))) = 2" for f a l
    using predictDisease_retry [of ?net "Suc 0" ?e f a l] tb rt two [of f a l]
    by (simp add: MAX_RETRIES_def)
  show ?thesis
    using predictDisease_retry [of ?net 0 ?e] tb rt one
    by (simp add: MAX_RETRIES_def)
qed

section \<open>The lesion location\<close>

lemma formData_lesion_location:
  "map_of (formData f a l) ''lesion_location'' =
     (case l of None \<Rightarrow> None | Some loc \<Rightarrow> if loc = [] then None else Some (StringValue loc))"
  by (simp add: formData_def split: option.splits)

lemma fst_handlePredict:
  "fst (handlePredict net st) =
     (case selectedImage st of
        None \<Rightarrow> []
      | Some img \<Rightarrow>
          if lesionLocation st = [] then []
          else fst (predictDisease net img (age st) (Some (lesionLocation st)) 0))"
  by (simp add: handlePredict_def Let_def case_prod_beta split: option.splits sum.splits)

lemma LESION_LOCATIONS_length: "length LESION_LOCATIONS = 10"
  by (simp add: LESION_LOCATIONS_def)

lemma LESION_LOCATIONS_distinct: "distinct LESION_LOCATIONS"
  by (simp add: LESION_LOCATIONS_def)

lemma LESION_LOCATIONS_nonempty: "[] \<notin> set LESION_LOCATIONS"
  by (simp add: LESION_LOCATIONS_def)

text \<open>
  C7, as stated, fails: with an image selected and no location chosen, \<^verbatim>\<open>handlePredict\<close>
  sends nothing and reports that a location must be selected.
\<close>

theorem handlePredict_without_location_counterexample:
  "handlePredict (scripted [] (Responded \<lparr>status = 200, body = Json None ()\<rparr>))
     \<lparr>selectedImage = Some \<lparr>file_type = ''image/png'', file_size = 20480,
        decoded = Some \<lparr>width = 640, height = 480\<rparr>, data_url = ''data:image/png;base64,''\<rparr>,
      imagePreview = Some ''data:image/png;base64,'', age = Some 30, lesionLocation = [],
      isLoading = False, prediction = None, error = None\<rparr>
   = ([],
      \<lparr>selectedImage = Some \<lparr>file_type = ''image/png'', file_size = 20480,
        decoded = Some \<lparr>width = 640, height = 480\<rparr>, data_url = ''data:image/png;base64,''\<rparr>,
      imagePreview = Some ''data:image/png;base64,'', age = Some 30, lesionLocation = [],
      isLoading = False, prediction = None, error = Some ''Please select a lesion location''\<rparr>)"
  by (simp add: handlePredict_def)

text \<open>
  C7, amended. The locations are a fixed list of exactly 10 distinct names. The page
  requires one: with an image selected and no location chosen \<^verbatim>\<open>handlePredict\<close> sends no
  request and reports that a location must be selected (with no image selected it sends
  no request either and reports that an image must be uploaded); every request it sends
  carries the chosen location in the field \<^verbatim>\<open>lesion_location\<close>, and a location chosen from
  the options of the form is one of the 10. Only the parameter of \<^verbatim>\<open>predictDisease\<close> is
  optional: absent or empty, the form data has no such field.
\<close>

theorem lesion_location_required:
  "length LESION_LOCATIONS = 10 \<and> distinct LESION_LOCATIONS
   \<and> (selectedImage st \<noteq> None \<and> lesionLocation st = [] \<longrightarrow>
        handlePredict net st = ([], st\<lparr>error := Some ''Please select a lesion location''\<rparr>))
   \<and> (selectedImage st = None \<longrightarrow>
        handlePredict net st = ([], st\<lparr>error := Some ''Please upload an image first''\<rparr>))
   \<and> (lesionLocation st = [] \<longrightarrow> fst (handlePredict net st) = [])
   \<and> (\<forall>d \<in> set (requests (fst (handlePredict net st))).
         map_of d ''lesion_location'' = Some (StringValue (lesionLocation st)))
   \<and> (lesionLocation st \<in> set location_options \<and> fst (handlePredict net st) \<noteq> [] \<longrightarrow>
         lesionLocation st \<in> set LESION_LOCATIONS)
   \<and> map_of (formData f a None) ''lesion_location'' = None
   \<and> map_of (formData f a (Some [])) ''lesion_location'' = None"
proof -
  have guard: "selectedImage st \<noteq> None \<and> lesionLocation st = [] \<longrightarrow>
        handlePredict net st = ([], st\<lparr>error := Some ''Please select a lesion location''\<rparr>)"
    by (auto simp: handlePredict_def)
  have image: "selectedImage st = None \<longrightarrow>
        handlePredict net st = ([], st\<lparr>error := Some ''Please upload an image first''\<rparr>)"
    by (simp add: handlePredict_def)
  have none: "lesionLocation st = [] \<longrightarrow> fst (handlePredict net st) = []"
    by (simp add: fst_handlePredict split: option.splits)
  have sent: "\<forall>d \<in> set (requests (fst (handlePredict net st))).
         map_of d ''lesion_location'' = Some (StringValue (lesionLocation st))"
  proof (cases "selectedImage st")
    case None
    then show ?thesis by (simp add: fst_handlePredict)
  next
    case (Some img)
    show ?thesis
    proof (cases "lesionLocation st = []")
      case True
      with Some show ?thesis by (simp add: fst_handlePredict)
    next
      case False
      let ?evs = "fst (predictDisease net img (age st) (Some (lesionLocation st)) 0)"
      have "set (requests ?evs) \<subseteq> {formData img (age st) (Some (lesionLocation st))}"
        by (subst requests_predictDisease) (simp add: set_replicate_conv_if)
      moreover have "map_of (formData img (age st) (Some (lesionLocation st))) ''lesion_location''
          = Some (StringValue (lesionLocation st))"
        using False by (simp add: formData_lesion_location)
      ultimately show ?thesis
        using Some False by (auto simp: fst_handlePredict)
    qed
  qed
  have chosen: "lesionLocation st \<in> set location_options \<and> fst (handlePredict net st) \<noteq> [] \<longrightarrow>
         lesionLocation st \<in> set LESION_LOCATIONS"
    using none by (auto simp: location_options_def)
  have absent: "map_of (formData f a None) ''lesion_location'' = None"
    and empty: "map_of (formData f a (Some [])) ''lesion_location'' = None"
    by (simp_all add: formData_lesion_location)
  show ?thesis
    by (intro conjI)
      (rule LESION_LOCATIONS_length LESION_LOCATIONS_distinct guard image none sent chosen
        absent empty)+
qed

text \<open>
  With an image and no location nothing is sent and the location is asked for; with no
  image the image is asked for; with the location Face the request carries it.
\<close>

theorem lesion_location_required_witness:
  "handlePredict (scripted [] (Responded \<lparr>status = 200, body = Json None ()\<rparr>))
     \<lparr>selectedImage = Some \<lparr>file_type = ''image/png'', file_size = 20480,
        decoded = Some \<lparr>width = 640, height = 480\<rparr>, data_url = ''data:image/png;base64,''\<rparr>,
      imagePreview = Some ''data:image/png;base64,'', age = Some 30, lesionLocation = [],
      isLoading = False, prediction = None, error = None\<rparr>
   = ([],
      \<lparr>selectedImage = Some \<lparr>file_type = ''image/png'', file_size = 20480,
        decoded = Some \<lparr>width = 640, height = 480\<rparr>, data_url = ''data:image/png;base64,''\<rparr>,
      imagePreview = Some ''data:image/png;base64,'', age = Some 30, lesionLocation = [],
      isLoading = False, prediction = None, error = Some ''Please select a lesion location''\<rparr>)
   \<and> handlePredict (scripted [] (Responded \<lparr>status = 200, body = Json None ()\<rparr>))
     \<lparr>selectedImage = None, imagePreview = None, age = Some 30, lesionLocation = [],
      isLoading = False, prediction = None, error = None\<rparr>
   = ([],
      \<lparr>selectedImage = None, imagePreview = None, age = Some 30, lesionLocation = [],
      isLoading = False, prediction = None, error = Some ''Please upload an image first''\<rparr>)
   \<and> map_of (formData \<lparr>file_type = ''image/png'', file_size = 20480,
        decoded = Some \<lparr>width = 640, height = 480\<rparr>, data_url = ''data:image/png;base64,''\<rparr>
        (Some 30) (Some ''Face'')) ''lesion_location'' = Some (StringValue ''Face'')
   \<and> ''Face'' \<in> set LESION_LOCATIONS"
proof -
  let ?f = "\<lparr>file_type = ''image/png'', file_size = 20480,
        decoded = Some \<lparr>width = 640, height = 480\<rparr>, data_url = ''data:image/png;base64,''\<rparr>"
  let ?net = "scripted [] (Responded \<lparr>status = 200, body = Json None ()\<rparr>)"
  let ?empty = "\<lparr>selectedImage = Some ?f,
      imagePreview = Some ''data:image/png;base64,'', age = Some 30, lesionLocation = [],
      isLoading = False, prediction = None, error = None\<rparr>"
  let ?blank = "\<lparr>selectedImage = None, imagePreview = None, age = Some 30, lesionLocation = [],
      isLoading = False, prediction = None, error = None\<rparr> :: unit page_state"
  let ?face = "\<lparr>selectedImage = Some ?f,
      imagePreview = Some ''data:image/png;base64,'', age = Some 30, lesionLocation = ''Face'',
      isLoading = False, prediction = None, error = None\<rparr>"
  have tb: "try_block (?net 0) = Inr (Inr (Some ()))"
    by (simp add: scripted_def try_block_def fetchWithTimeout_def ok_def)
  have sent: "fst (handlePredict ?net ?face) = [Request (formData ?f (Some 30) (Some ''Face''))]"
    using predictDisease_settled [of ?net 0 "Inr (Some ())" ?f "Some 30" "Some ''Face''"] tb
    by (simp add: fst_handlePredict)
  have option: "''Face'' \<in> set location_options"
    by (simp add: location_options_def LESION_LOCATIONS_def)
  from lesion_location_required [of ?empty ?net]
  have first: "handlePredict ?net ?empty
      = ([], ?empty\<lparr>error := Some ''Please select a lesion location''\<rparr>)"
    by simp
  from lesion_location_required [of ?blank ?net]
  have second: "handlePredict ?net ?blank
      = ([], ?blank\<lparr>error := Some ''Please upload an image first''\<rparr>)"
    by simp
  from lesion_location_required [of ?face ?net] sent option
  have third: "map_of (formData ?f (Some 30) (Some ''Face'')) ''lesion_location''
        = Some (StringValue ''Face'') \<and> ''Face'' \<in> set LESION_LOCATIONS"
    by simp
  from first second third show ?thesis by simp
qed

section \<open>Triage\<close>

lemma max_probability_vec: "max_probability (vec a c m p) = max a (max c (max m p))"
  by (simp add: max_probability_def CLASS_NAMES_def)

text \<open>
  C1. For every probability vector the rules apply in first-match order: melanoma
  probability at least 0.50 gives CRITICAL; otherwise at least 0.30 gives HIGH; otherwise a
  maximum class probability of at least 0.70 gives MEDIUM; otherwise LOW. The flag
  \<^verbatim>\<open>requires_immediate_attention\<close> is set if and only if the level is CRITICAL or HIGH.
\<close>

theorem classify_first_match:
  "(p Melanoma \<ge> 0.50 \<longrightarrow> level (classify template p) = CRITICAL)
   \<and> (p Melanoma < 0.50 \<and> p Melanoma \<ge> 0.30 \<longrightarrow> level (classify template p) = HIGH)
   \<and> (p Melanoma < 0.30 \<and> max_probability p \<ge> 0.70 \<longrightarrow> level (classify template p) = MEDIUM)
   \<and> (p Melanoma < 0.30 \<and> max_probability p < 0.70 \<longrightarrow> level (classify template p) = LOW)
   \<and> (requires_immediate_attention (classify template p) \<longleftrightarrow>
        level (classify template p) = CRITICAL \<or> level (classify template p) = HIGH)
   \<and> melanoma_probability (classify template p) = p Melanoma"
  by (simp add: classify_def triage_level_of_def Let_def)

text \<open>
  The boundary cases: 0.50 is CRITICAL, 0.4999 and 0.30 are HIGH, 0.2999 with a top class
  at 0.70 is MEDIUM, a top class at 0.6999 with melanoma below 0.30 is LOW.
\<close>

theorem classify_first_match_witness:
  "level (classify (\<lambda>l m. []) (vec 0.25 0.15 0.50 0.10)) = CRITICAL
   \<and> level (classify (\<lambda>l m. []) (vec 0.25 0.15 0.4999 0.1001)) = HIGH
   \<and> level (classify (\<lambda>l m. []) (vec 0.40 0.20 0.30 0.10)) = HIGH
   \<and> level (classify (\<lambda>l m. []) (vec 0.70 0.0001 0.2999 0)) = MEDIUM
   \<and> level (classify (\<lambda>l m. []) (vec 0.6999 0.0501 0.25 0)) = LOW
   \<and> requires_immediate_attention (classify (\<lambda>l m. []) (vec 0.40 0.20 0.30 0.10))
   \<and> \<not> requires_immediate_attention (classify (\<lambda>l m. []) (vec 0.70 0.0001 0.2999 0))"
  using classify_first_match [of "vec 0.25 0.15 0.50 0.10" "\<lambda>l m. []"]
    classify_first_match [of "vec 0.25 0.15 0.4999 0.1001" "\<lambda>l m. []"]
    classify_first_match [of "vec 0.40 0.20 0.30 0.10" "\<lambda>l m. []"]
    classify_first_match [of "vec 0.70 0.0001 0.2999 0" "\<lambda>l m. []"]
    classify_first_match [of "vec 0.6999 0.0501 0.25 0" "\<lambda>l m. []"]
  by (simp add: max_probability_vec)

text \<open>
  C4, as stated, fails. With the other classes in the proportions 9 : 1 : 0, raising the
  melanoma probability from 0.20 to 0.25 lowers the top class from 0.72 to 0.675, below
  the 0.70 of rule 3, while melanoma stays below the 0.30 of rule 2: MEDIUM becomes LOW.
\<close>

theorem triage_monotone_counterexample:
  "simplex (vec 0.72 0.08 0.20 0) \<and> simplex (vec 0.675 0.075 0.25 0)
   \<and> same_proportions (vec 0.72 0.08 0.20 0) (vec 0.675 0.075 0.25 0)
   \<and> vec 0.72 0.08 0.20 0 Melanoma < vec 0.675 0.075 0.25 0 Melanoma
   \<and> triage_level_of (vec 0.72 0.08 0.20 0) = MEDIUM
   \<and> triage_level_of (vec 0.675 0.075 0.25 0) = LOW
   \<and> severity (triage_level_of (vec 0.675 0.075 0.25 0))
       < severity (triage_level_of (vec 0.72 0.08 0.20 0))"
  by (simp add: simplex_def CLASS_NAMES_def same_proportions_def triage_level_of_def
      max_probability_vec)

text \<open>
  C4, amended. For two vectors with the non-melanoma classes in the same proportions, the
  one with the larger melanoma probability never has a lower level, except that MEDIUM
  may become LOW while the melanoma probability stays below 0.30.
\<close>

theorem triage_monotone_except_medium:
  assumes "same_proportions p q" and "p Melanoma \<le> q Melanoma"
  shows "severity (triage_level_of p) \<le> severity (triage_level_of q)
         \<or> (triage_level_of p = MEDIUM \<and> triage_level_of q = LOW \<and> q Melanoma < 0.30)"
  using assms(2) by (auto simp: triage_level_of_def)

theorem triage_monotone_except_medium_witness:
  "severity (triage_level_of (vec 0.40 0.20 0.20 0.20)) \<le> severity (triage_level_of (vec 0.20 0.10 0.60 0.10))
   \<and> triage_level_of (vec 0.40 0.20 0.20 0.20) = LOW
   \<and> triage_level_of (vec 0.20 0.10 0.60 0.10) = CRITICAL"
proof -
  have same: "same_proportions (vec 0.40 0.20 0.20 0.20) (vec 0.20 0.10 0.60 0.10)"
    by (simp add: same_proportions_def)
  have mel: "vec 0.40 0.20 0.20 0.20 Melanoma \<le> vec 0.20 0.10 0.60 0.10 Melanoma"
    by simp
  have low: "triage_level_of (vec 0.40 0.20 0.20 0.20) = LOW"
    by (simp add: triage_level_of_def max_probability_vec)
  have crit: "triage_level_of (vec 0.20 0.10 0.60 0.10) = CRITICAL"
    by (simp add: triage_level_of_def)
  from triage_monotone_except_medium [OF same mel] low crit show ?thesis
    by simp
qed

section \<open>The simplex invariant\<close>

lemma normalize_simplex:
  assumes nonneg: "\<forall>d \<in> set CLASS_NAMES. 0 \<le> w d" and pos: "\<exists>d \<in> set CLASS_NAMES. 0 < w d"
  shows "simplex (normalize w)"
proof -
  let ?s = "sum_list (map w CLASS_NAMES)"
  have s: "?s = w Acne + w Cherry_Angioma + w Melanoma + w Psoriasis"
    by (simp add: CLASS_NAMES_def)
  from nonneg have nn: "0 \<le> w Acne" "0 \<le> w Cherry_Angioma" "0 \<le> w Melanoma" "0 \<le> w Psoriasis"
    by (simp_all add: CLASS_NAMES_def)
  from pos nn have spos: "0 < ?s"
    unfolding s by (auto simp: CLASS_NAMES_def)
  have le: "w d \<le> ?s" for d
    using nn unfolding s by (cases d) simp_all
  have ge: "0 \<le> w d" for d
    using nn by (cases d) simp_all
  have entries: "0 \<le> normalize w d \<and> normalize w d \<le> 1" for d
    using spos le [of d] ge [of d] by (simp add: normalize_def)
  have "sum_list (map (normalize w) CLASS_NAMES)
      = (w Acne + w Cherry_Angioma + w Melanoma + w Psoriasis) / ?s"
    by (simp add: normalize_def CLASS_NAMES_def add_divide_distrib)
  with spos have total: "sum_list (map (normalize w) CLASS_NAMES) = 1"
    unfolding s by simp
  show ?thesis
    using entries total by (simp add: simplex_def list_all_iff)
qed

lemma class_probabilities_keys:
  "map fst (class_probabilities p) = [''Acne'', ''Cherry Angioma'', ''Melanoma'', ''Psoriasis'']"
  by (simp add: class_probabilities_def CLASS_NAMES_def)

text \<open>
  C3. Every probability vector the inference engine outputs is on the simplex: each of the
  four values lies in [0,1] and their sum within 1e-6 of 1 (in exact arithmetic it is 1);
  the classes of the output are exactly Acne, Cherry Angioma, Melanoma, Psoriasis, in this
  order whatever the back end and the tensor.
\<close>

theorem predict_simplex:
  assumes "usable b tensor"
  shows "simplex (predict b tensor)
       \<and> map fst (class_probabilities (predict b tensor)) =
           [''Acne'', ''Cherry Angioma'', ''Melanoma'', ''Psoriasis'']
       \<and> map snd (class_probabilities (predict b tensor)) = map (predict b tensor) CLASS_NAMES"
proof (cases b)
  case (RealModel network)
  have "simplex (softmax (network tensor))"
    unfolding softmax_def by (rule normalize_simplex) (auto simp: CLASS_NAMES_def)
  with RealModel show ?thesis
    by (simp add: class_probabilities_keys) (simp add: class_probabilities_def comp_def)
next
  case (PlaceholderModel content_hash weights)
  with assms have "simplex (normalize (weights (content_hash tensor)))"
    by (intro normalize_simplex) (simp_all add: list_all_iff list_ex_iff)
  with PlaceholderModel show ?thesis
    by (simp add: class_probabilities_keys) (simp add: class_probabilities_def comp_def)
qed

theorem predict_simplex_witness:
  "simplex (vec (1 / 10) (2 / 10) (3 / 10) (4 / 10))
   \<and> map fst (class_probabilities (vec (1 / 10) (2 / 10) (3 / 10) (4 / 10))) =
           [''Acne'', ''Cherry Angioma'', ''Melanoma'', ''Psoriasis'']"
proof -
  let ?b = "PlaceholderModel (\<lambda>t :: nat list. sum_list t) (\<lambda>seed. vec 1 2 3 4)"
  have u: "usable ?b [3, 1, 4]"
    by (simp add: CLASS_NAMES_def)
  have p: "predict ?b [3, 1, 4] = vec (1 / 10) (2 / 10) (3 / 10) (4 / 10)"
  proof
    fix d show "predict ?b [3, 1, 4] d = vec (1 / 10) (2 / 10) (3 / 10) (4 / 10) d"
      by (cases d) (simp_all add: normalize_def CLASS_NAMES_def)
  qed
  from predict_simplex [OF u] p show ?thesis by simp
qed

end
